theory Spec2Isabelle
  imports Main "HOL-Library.Sublist"
begin

section \<open>Shared vocabulary\<close>

text \<open>
  Errors are values. \<open>Wrap\<close> and \<open>Wrapf\<close> stand for \<^verbatim>\<open>errors.Wrap(err, msg)\<close> and
  \<^verbatim>\<open>errors.Wrapf(err, format, arg)\<close>, \<open>Errorf\<close> for \<^verbatim>\<open>errors.Errorf(format, args...)\<close>;
  \<open>External\<close> is an error handed back by a collaborator (API server, file system,
  REST mapper). Format strings are kept unexpanded next to their arguments.
\<close>

datatype error =
    External string
  | Errorf string "string list"
  | Wrap error string
  | Wrapf error string string

text \<open>\<^verbatim>\<open>strings.HasPrefix\<close> and \<^verbatim>\<open>strings.HasSuffix\<close> as the Go library defines them.\<close>

definition HasPrefix :: "string \<Rightarrow> string \<Rightarrow> bool" where
  "HasPrefix s p = (length p \<le> length s \<and> take (length p) s = p)"

definition HasSuffix :: "string \<Rightarrow> string \<Rightarrow> bool" where
  "HasSuffix s x = (length x \<le> length s \<and> drop (length s - length x) s = x)"

text \<open>
  A Go \<^verbatim>\<open>map[string]struct{}\<close> is kept as the list of its keys, without repetition.
  \<open>keyPut\<close> is \<^verbatim>\<open>m[k] = struct{}{}\<close>, \<open>keyDelete\<close> is \<^verbatim>\<open>delete(m, k)\<close>, \<open>[]\<close> is the
  result of \<^verbatim>\<open>make\<close>. Go leaves the order of \<^verbatim>\<open>range\<close> over a map open; the list
  fixes one order, and nothing proved below depends on it.
\<close>

type_synonym keyset = "string list"

definition keyPut :: "string \<Rightarrow> keyset \<Rightarrow> keyset" where
  "keyPut k m = (if k \<in> set m then m else m @ [k])"

definition keyDelete :: "string \<Rightarrow> keyset \<Rightarrow> keyset" where
  "keyDelete k m = removeAll k m"

definition keyHas :: "keyset \<Rightarrow> string \<Rightarrow> bool" where
  "keyHas m k = (k \<in> set m)"

section \<open>Exporter options\<close>

record Options =
  OutputArchive :: string
  IncludeNamespaces :: "string list"
  ExcludeNamespaces :: "string list"
  IncludeExtraResources :: "string list"
  ExcludeResources :: "string list"
  PauseBeforeExport :: bool

section \<open>Unstructured objects\<close>

text \<open>
  An \<^verbatim>\<open>unstructured.Unstructured\<close> wraps \<^verbatim>\<open>Object map[string]interface{}\<close>, a decoded
  JSON document. Objects are association lists; a lookup takes the first binding.
\<close>

datatype json =
    JNull
  | JBool bool
  | JNum int
  | JStr string
  | JArr "json list"
  | JObj "(string \<times> json) list"

type_synonym Unstructured = "(string \<times> json) list"

text \<open>
  The accessors of the apimachinery library that the fetcher calls.
  \<open>NestedFieldNoCopy\<close> walks a path of field names and gives \<open>None\<close> both when a field is
  missing and when a non-map is met on the way; every caller below treats the two alike.
\<close>

fun NestedFieldNoCopy :: "json \<Rightarrow> string list \<Rightarrow> json option" where
  "NestedFieldNoCopy v [] = Some v"
| "NestedFieldNoCopy (JObj m) (f # fs) =
     (case map_of m f of None \<Rightarrow> None | Some v \<Rightarrow> NestedFieldNoCopy v fs)"
| "NestedFieldNoCopy _ (f # fs) = None"

definition getNestedString :: "Unstructured \<Rightarrow> string list \<Rightarrow> string" where
  "getNestedString obj fs =
     (case NestedFieldNoCopy (JObj obj) fs of Some (JStr s) \<Rightarrow> s | _ \<Rightarrow> [])"

definition GetKind :: "Unstructured \<Rightarrow> string" where
  "GetKind r = getNestedString r [''kind'']"

definition GetAPIVersion :: "Unstructured \<Rightarrow> string" where
  "GetAPIVersion r = getNestedString r [''apiVersion'']"

definition GetName :: "Unstructured \<Rightarrow> string" where
  "GetName r = getNestedString r [''metadata'', ''name'']"

definition GetNamespace :: "Unstructured \<Rightarrow> string" where
  "GetNamespace r = getNestedString r [''metadata'', ''namespace'']"

text \<open>
  \<open>GetLabels\<close> is \<^verbatim>\<open>NestedStringMap(obj, "metadata", "labels")\<close>: \<open>None\<close> (Go's nil map)
  when the field is missing, is not a map, or holds a value that is not a string.
\<close>

fun stringValues :: "(string \<times> json) list \<Rightarrow> (string \<times> string) list option" where
  "stringValues [] = Some []"
| "stringValues ((k, JStr s) # kvs) =
     (case stringValues kvs of None \<Rightarrow> None | Some m \<Rightarrow> Some ((k, s) # m))"
| "stringValues (_ # kvs) = None"

definition GetLabels :: "Unstructured \<Rightarrow> (string \<times> string) list option" where
  "GetLabels r =
     (case NestedFieldNoCopy (JObj r) [''metadata'', ''labels''] of
        Some (JObj m) \<Rightarrow> stringValues m
      | _ \<Rightarrow> None)"

text \<open>Indexing a Go \<^verbatim>\<open>map[string]string\<close>: the empty string for a missing key.\<close>

definition index :: "(string \<times> string) list \<Rightarrow> string \<Rightarrow> string" where
  "index m k = (case map_of m k of None \<Rightarrow> [] | Some v \<Rightarrow> v)"

record OwnerReference =
  or_APIVersion :: string
  or_Kind :: string
  or_Name :: string

text \<open>
  \<open>GetOwnerReferences\<close>: \<open>None\<close> (nil) when \<^verbatim>\<open>metadata.ownerReferences\<close> is missing, is
  not a list, or has an element that is not a map; otherwise each element is read with
  \<open>getNestedString\<close>.
\<close>

fun extractOwnerReferences :: "json list \<Rightarrow> OwnerReference list option" where
  "extractOwnerReferences [] = Some []"
| "extractOwnerReferences (JObj m # rest) =
     (case extractOwnerReferences rest of
        None \<Rightarrow> None
      | Some refs \<Rightarrow>
          Some (\<lparr>or_APIVersion = getNestedString m [''apiVersion''],
                 or_Kind = getNestedString m [''kind''],
                 or_Name = getNestedString m [''name'']\<rparr> # refs))"
| "extractOwnerReferences (_ # rest) = None"

definition GetOwnerReferences :: "Unstructured \<Rightarrow> OwnerReference list option" where
  "GetOwnerReferences r =
     (case NestedFieldNoCopy (JObj r) [''metadata'', ''ownerReferences''] of
        Some (JArr refs) \<Rightarrow> extractOwnerReferences refs
      | _ \<Rightarrow> None)"

text \<open>
  \<^verbatim>\<open>fieldpath.Pave(obj).GetString(path)\<close> with the error dropped, as the fetcher calls
  it (\<^verbatim>\<open>s, _ := paved.GetString("type")\<close>): the string at the path, or the empty string
  when the path is missing or holds no string. The path is given as its parsed
  segments; \<^verbatim>\<open>"type"\<close> is the single segment \<open>[''type'']\<close>.
\<close>

definition GetString :: "Unstructured \<Rightarrow> string list \<Rightarrow> string" where
  "GetString obj segments =
     (case NestedFieldNoCopy (JObj obj) segments of Some (JStr s) \<Rightarrow> s | _ \<Rightarrow> [])"

section \<open>Resource fetcher\<close>

record GroupVersionResource =
  gvr_Group :: string
  gvr_Version :: string
  gvr_Resource :: string

text \<open>\<^verbatim>\<open>GroupVersionResource.GroupResource().String()\<close>.\<close>

definition GroupResourceString :: "GroupVersionResource \<Rightarrow> string" where
  "GroupResourceString gvr =
     (if length (gvr_Group gvr) = 0 then gvr_Resource gvr else gvr_Resource gvr @ ''.'' @ gvr_Group gvr)"

record UnstructuredFetcher =
  pageSize :: int
  includedNamespaces :: keyset
  excludedNamespaces :: keyset

definition defaultPageSize :: int where
  "defaultPageSize = 500"

definition NewUnstructuredFetcher :: "Options \<Rightarrow> UnstructuredFetcher" where
  "NewUnstructuredFetcher opts =
     \<lparr>pageSize = defaultPageSize,
      includedNamespaces = fold keyPut (IncludeNamespaces opts) [],
      excludedNamespaces = fold keyPut (ExcludeNamespaces opts) []\<rparr>"

definition namespaceInScope :: "UnstructuredFetcher \<Rightarrow> string \<Rightarrow> bool" where
  "namespaceInScope e ns =
     (if 0 < length (includedNamespaces e) \<and> \<not> keyHas (includedNamespaces e) ns then False
      else if keyHas (excludedNamespaces e) ns then False
      else True)"

text \<open>The loop of \<open>shouldSkip\<close> over the owner references, with its \<^verbatim>\<open>break\<close>.\<close>

fun ownedByPackageManager :: "OwnerReference list \<Rightarrow> bool" where
  "ownedByPackageManager [] = False"
| "ownedByPackageManager (ref # refs) =
     (if HasPrefix (or_APIVersion ref) ''pkg.crossplane.io'' then True
      else ownedByPackageManager refs)"

definition shouldSkip :: "UnstructuredFetcher \<Rightarrow> Unstructured \<Rightarrow> bool" where
  "shouldSkip e r =
     (if (GetKind r = ''Namespace'' \<and> \<not> namespaceInScope e (GetName r)) \<or>
         (GetNamespace r \<noteq> [] \<and> \<not> namespaceInScope e (GetNamespace r)) then True
      else if GetKind r = ''ConfigMap'' \<and> GetName r = ''kube-root-ca.crt'' then True
      else if (case GetLabels r of None \<Rightarrow> False
               | Some ls \<Rightarrow> index ls ''app.kubernetes.io/managed-by'' = ''Helm'') then True
      else if GetKind r = ''Secret'' \<and> HasPrefix (GetString r [''type'']) ''helm.sh/release''
        then True
      else if (case GetOwnerReferences r of None \<Rightarrow> False
               | Some refs \<Rightarrow> ownedByPackageManager refs) then True
      else if GetKind r = ''Lock'' \<and> HasPrefix (GetAPIVersion r) ''pkg.crossplane.io'' then True
      else False)"

text \<open>
  The dynamic client: \<open>kube gvr limit token\<close> is one call of
  \<^verbatim>\<open>e.kube.Resource(gvr).List\<close> with that page size and continuation token, giving an
  error or the items of the page and the next token.
\<close>

type_synonym DynamicClient =
  "GroupVersionResource \<Rightarrow> int \<Rightarrow> string \<Rightarrow> error + Unstructured list \<times> string"

text \<open>
  The loop of \<open>FetchResources\<close>, from a continuation token and the resources gathered so
  far. It ends when the server returns an empty token; a server that never does keeps
  it running, and the result is then \<open>None\<close>.
\<close>

partial_function (option) fetchPages ::
  "DynamicClient \<Rightarrow> UnstructuredFetcher \<Rightarrow> GroupVersionResource \<Rightarrow> string \<Rightarrow>
   Unstructured list \<Rightarrow> (error + Unstructured list) option" where
  "fetchPages kube e gvr continueToken resources =
     (case kube gvr (pageSize e) continueToken of
        Inl err \<Rightarrow> Some (Inl (Wrapf err ''cannot list %q resources'' (GroupResourceString gvr)))
      | Inr (items, next) \<Rightarrow>
          (let resources = resources @ filter (\<lambda>r. \<not> shouldSkip e r) items in
           if next = [] then Some (Inr resources)
           else fetchPages kube e gvr next resources))"

definition FetchResources ::
  "DynamicClient \<Rightarrow> UnstructuredFetcher \<Rightarrow> GroupVersionResource \<Rightarrow>
   (error + Unstructured list) option" where
  "FetchResources kube e gvr = fetchPages kube e gvr [] []"

section \<open>Schema selector\<close>

record CustomResourceDefinitionVersion =
  ver_Name :: string
  ver_Storage :: bool
  ver_HasStatusSubresource :: bool

record CustomResourceDefinition =
  crd_Name :: string
  crd_OwnerReferences :: "OwnerReference list"
  crd_Group :: string
  crd_Kind :: string
  crd_Categories :: "string list"
  crd_Versions :: "CustomResourceDefinitionVersion list"

record GroupKind =
  gk_Group :: string
  gk_Kind :: string

definition extraResources :: "Options \<Rightarrow> keyset" where
  "extraResources opts =
     fold keyDelete (ExcludeResources opts) (fold keyPut (IncludeExtraResources opts) [])"

text \<open>The \<^verbatim>\<open>range\<close> loop of \<open>IncludedExtraResource\<close> over the keys.\<close>

fun rangeFinds :: "string \<Rightarrow> keyset \<Rightarrow> bool" where
  "rangeFinds gr [] = False"
| "rangeFinds gr (r # rs) = (if gr = r then True else rangeFinds gr rs)"

definition IncludedExtraResource :: "Options \<Rightarrow> string \<Rightarrow> bool" where
  "IncludedExtraResource opts gr = rangeFinds gr (extraResources opts)"

text \<open>The loop of \<open>shouldExport\<close> over the owner references, with its early returns.\<close>

fun ownerSelects :: "OwnerReference list \<Rightarrow> bool" where
  "ownerSelects [] = False"
| "ownerSelects (ref # refs) =
     (if or_APIVersion ref = ''pkg.crossplane.io/v1'' then True
      else if or_APIVersion ref = ''apiextensions.crossplane.io/v1'' \<and>
              or_Kind ref = ''CompositeResourceDefinition'' then True
      else ownerSelects refs)"

definition shouldExport :: "Options \<Rightarrow> CustomResourceDefinition \<Rightarrow> bool" where
  "shouldExport opts crd =
     (if ownerSelects (crd_OwnerReferences crd) then True
      else if HasSuffix (crd_Name crd) ''.crossplane.io'' then True
      else IncludedExtraResource opts (crd_Name crd))"

text \<open>
  The REST mapper is a collaborator: \<open>mapper gk version\<close> is the \<^verbatim>\<open>Resource\<close> of
  \<^verbatim>\<open>RESTMapping(gk, version)\<close>, or its error. \<open>storageVersion\<close> is the first loop of
  \<open>customResourceGVR\<close>: it starts from the empty string and has no \<^verbatim>\<open>break\<close>.
\<close>

type_synonym RESTMapper = "GroupKind \<Rightarrow> string \<Rightarrow> error + GroupVersionResource"

definition storageVersion :: "CustomResourceDefinitionVersion list \<Rightarrow> string" where
  "storageVersion vs = fold (\<lambda>vr version. if ver_Storage vr then ver_Name vr else version) vs []"

definition customResourceGVR ::
  "RESTMapper \<Rightarrow> CustomResourceDefinition \<Rightarrow> error + GroupVersionResource" where
  "customResourceGVR mapper crd =
     (case mapper \<lparr>gk_Group = crd_Group crd, gk_Kind = crd_Kind crd\<rparr>
                  (storageVersion (crd_Versions crd)) of
        Inl err \<Rightarrow> Inl (Wrapf err ''cannot get REST mapping for %q'' (crd_Name crd))
      | Inr resource \<Rightarrow> Inr resource)"

section \<open>Exporter\<close>

record TypeMeta =
  tm_Categories :: "string list"
  tm_WithStatusSubresource :: bool

text \<open>
  The collaborators of the exporter, each given by what it returns:
  \<open>tempDir\<close> is \<^verbatim>\<open>fs.TempDir("", "up")\<close>, \<open>pauseManaged\<close> the category modifier on
  \<^verbatim>\<open>managed\<close>, \<open>fetchAllCRDs\<close> the paginated listing of the definitions, \<open>crdMapper\<close>
  and \<open>resourceFor\<close> the REST mapper, \<open>exportResources\<close> the
  \<^verbatim>\<open>UnstructuredExporter\<close> built on a persister with the given type descriptor,
  \<open>exportMetadata\<close> the metadata exporter, and \<open>createError\<close>, \<open>chmodError\<close>,
  \<open>walkError\<close> the three places where \<open>archive\<close> can fail.
\<close>

record ExportEnv =
  tempDir :: "error + string"
  pauseManaged :: "error + nat"
  fetchAllCRDs :: "error + CustomResourceDefinition list"
  crdMapper :: RESTMapper
  resourceFor :: "string \<Rightarrow> error + GroupVersionResource"
  exportResources :: "GroupVersionResource \<Rightarrow> TypeMeta option \<Rightarrow> error + nat"
  exportMetadata :: "Options \<Rightarrow> (string \<rightharpoonup> nat) \<Rightarrow> (string \<rightharpoonup> nat) \<Rightarrow> error option"
  createError :: "error option"
  chmodError :: "error option"
  walkError :: "error option"

text \<open>
  The file system is the set of paths that exist. Files written below the temporary
  directory are not tracked: \<open>RemoveAll\<close> takes the directory and everything below it
  (the code drops the error of \<^verbatim>\<open>fs.RemoveAll\<close>; the removal is taken to succeed).
\<close>

type_synonym paths = "string set"

definition RemoveAll :: "string \<Rightarrow> paths \<Rightarrow> paths" where
  "RemoveAll dir fs = {p \<in> fs. \<not> (p = dir \<or> HasPrefix p (dir @ ''/''))}"

text \<open>
  \<open>archive\<close>: \<^verbatim>\<open>fs.Create\<close> of the output file comes first; \<^verbatim>\<open>fs.Chmod\<close> and the walk that
  fills the archive follow, and each returns its error with the file in place.
\<close>

definition archive :: "ExportEnv \<Rightarrow> Options \<Rightarrow> string \<Rightarrow> paths \<Rightarrow> error option \<times> paths" where
  "archive env opts dir fs =
     (case createError env of
        Some err \<Rightarrow> (Some err, fs)
      | None \<Rightarrow>
          (let fs = insert (OutputArchive opts) fs in
           case chmodError env of
             Some err \<Rightarrow> (Some err, fs)
           | None \<Rightarrow>
               (case walkError env of
                  Some err \<Rightarrow> (Some err, fs)
                | None \<Rightarrow> (None, fs))))"

text \<open>The loop that sets \<^verbatim>\<open>sub\<close>: a storage version with a status subresource.\<close>

fun hasStatusSubresource :: "CustomResourceDefinitionVersion list \<Rightarrow> bool" where
  "hasStatusSubresource [] = False"
| "hasStatusSubresource (vr # vrs) =
     (if ver_Storage vr \<and> ver_HasStatusSubresource vr then True else hasStatusSubresource vrs)"

fun exportCustom ::
  "ExportEnv \<Rightarrow> CustomResourceDefinition list \<Rightarrow> (string \<rightharpoonup> nat) \<Rightarrow> error + (string \<rightharpoonup> nat)" where
  "exportCustom env [] crCounts = Inr crCounts"
| "exportCustom env (crd # crds) crCounts =
     (case customResourceGVR (crdMapper env) crd of
        Inl err \<Rightarrow> Inl (Wrapf err ''cannot get GVR for %q'' (crd_Name crd))
      | Inr gvr \<Rightarrow>
          (case exportResources env gvr
                  (Some \<lparr>tm_Categories = crd_Categories crd,
                         tm_WithStatusSubresource = hasStatusSubresource (crd_Versions crd)\<rparr>) of
             Inl err \<Rightarrow> Inl (Wrapf err ''cannot export resources for %q'' (crd_Name crd))
           | Inr count \<Rightarrow> exportCustom env crds (crCounts(GroupResourceString gvr \<mapsto> count))))"

fun exportNative ::
  "ExportEnv \<Rightarrow> keyset \<Rightarrow> (string \<rightharpoonup> nat) \<Rightarrow> error + (string \<rightharpoonup> nat)" where
  "exportNative env [] nativeCounts = Inr nativeCounts"
| "exportNative env (r # rs) nativeCounts =
     (case resourceFor env r of
        Inl err \<Rightarrow> Inl (Wrapf err ''cannot get GVR for %q'' r)
      | Inr gvr \<Rightarrow>
          (case exportResources env gvr None of
             Inl err \<Rightarrow> Inl (Wrapf err ''cannot export resources for %q'' r)
           | Inr count \<Rightarrow> exportNative env rs (nativeCounts(gvr_Resource gvr \<mapsto> count))))"

text \<open>\<open>Export\<close> after the temporary directory exists, up to its return.\<close>

definition exportSteps :: "ExportEnv \<Rightarrow> Options \<Rightarrow> string \<Rightarrow> paths \<Rightarrow> error option \<times> paths" where
  "exportSteps env opts tmpDir fs =
     (case (if PauseBeforeExport opts then pauseManaged env else Inr 0) of
        Inl err \<Rightarrow> (Some (Wrap err ''cannot pause managed resources''), fs)
      | Inr paused \<Rightarrow>
     (case fetchAllCRDs env of
        Inl err \<Rightarrow> (Some (Wrap err ''cannot fetch CRDs''), fs)
      | Inr crdList \<Rightarrow>
     (case exportCustom env (filter (shouldExport opts) crdList) Map.empty of
        Inl err \<Rightarrow> (Some err, fs)
      | Inr crCounts \<Rightarrow>
     (case exportNative env (extraResources opts) Map.empty of
        Inl err \<Rightarrow> (Some err, fs)
      | Inr nativeCounts \<Rightarrow>
     (case exportMetadata env opts nativeCounts crCounts of
        Some err \<Rightarrow> (Some (Wrap err ''cannot write export metadata''), fs)
      | None \<Rightarrow>
     (case archive env opts tmpDir fs of
        (Some err, fs') \<Rightarrow> (Some (Wrap err ''cannot archive exported state''), fs')
      | (None, fs') \<Rightarrow> (None, fs')))))))"

text \<open>
  \<open>Export\<close>: the deferred \<^verbatim>\<open>fs.RemoveAll(tmpDir)\<close> is registered once the temporary
  directory exists and runs on every return after that.
\<close>

definition Export :: "ExportEnv \<Rightarrow> Options \<Rightarrow> paths \<Rightarrow> error option \<times> paths" where
  "Export env opts fs =
     (case tempDir env of
        Inl err \<Rightarrow> (Some (Wrap err ''cannot create temporary directory''), fs)
      | Inr tmpDir \<Rightarrow>
          (case exportSteps env opts tmpDir (insert tmpDir fs) of
             (result, fs') \<Rightarrow> (result, RemoveAll tmpDir fs')))"

section \<open>Control-plane information\<close>

record Container =
  c_Name :: string
  c_Args :: "string list"

text \<open>\<open>d_Labels\<close> is \<open>None\<close> for Go's nil map.\<close>

record Deployment =
  d_Name :: string
  d_Namespace :: string
  d_Labels :: "(string \<times> string) list option"
  d_Containers :: "Container list"

record CrossplaneInfo =
  xp_Version :: string
  xp_Distribution :: string
  xp_Namespace :: string
  xp_FeatureFlags :: "string list"

text \<open>The zero value \<^verbatim>\<open>v1alpha1.CrossplaneInfo{}\<close>.\<close>

definition zeroInfo :: CrossplaneInfo where
  "zeroInfo = \<lparr>xp_Version = [], xp_Distribution = [], xp_Namespace = [], xp_FeatureFlags = []\<rparr>"

text \<open>
  The loop over the containers: the first one named \<^verbatim>\<open>crossplane\<close> or
  \<^verbatim>\<open>universal-crossplane\<close> gives its \<^verbatim>\<open>--enable\<close> arguments, in order, and ends the loop.
\<close>

fun containerFlags :: "Container list \<Rightarrow> string list" where
  "containerFlags [] = []"
| "containerFlags (c # cs) =
     (if c_Name c = ''crossplane'' \<or> c_Name c = ''universal-crossplane''
      then filter (\<lambda>a. HasPrefix a ''--enable'') (c_Args c)
      else containerFlags cs)"

definition deploymentInfo :: "Deployment \<Rightarrow> CrossplaneInfo" where
  "deploymentInfo d =
     \<lparr>xp_Version = (case d_Labels d of None \<Rightarrow> [] | Some ls \<Rightarrow> index ls ''app.kubernetes.io/version''),
      xp_Distribution = (case d_Labels d of None \<Rightarrow> [] | Some ls \<Rightarrow> index ls ''app.kubernetes.io/instance''),
      xp_Namespace = d_Namespace d,
      xp_FeatureFlags = containerFlags (d_Containers d)\<rparr>"

text \<open>The loop over the deployments: the first one named \<^verbatim>\<open>crossplane\<close> ends it.\<close>

fun scanDeployments :: "Deployment list \<Rightarrow> CrossplaneInfo" where
  "scanDeployments [] = zeroInfo"
| "scanDeployments (d # ds) =
     (if d_Name d = ''crossplane'' then deploymentInfo d else scanDeployments ds)"

text \<open>\<open>CollectInfo\<close> takes the result of listing the deployments of all namespaces.\<close>

definition CollectInfo :: "error + Deployment list \<Rightarrow> error + CrossplaneInfo" where
  "CollectInfo listed =
     (case listed of
        Inl err \<Rightarrow> Inl (Wrap err ''cannot list deployments to find Crossplane deployment'')
      | Inr items \<Rightarrow> Inr (scanDeployments items))"

section \<open>Importer\<close>



text \<open>
  Of \<^verbatim>\<open>v1alpha1.ExportMeta\<close> the importer reads the \<^verbatim>\<open>Crossplane\<close> block only.
\<close>

record ExportMeta =
  em_Crossplane :: CrossplaneInfo

text \<open>
  The in-memory file system of the importer is kept as the listing of its root:
  name and \<^verbatim>\<open>IsDir\<close> of each entry, in the order \<^verbatim>\<open>ReadDir("/")\<close> returns them.
\<close>

type_synonym MemFs = "(string \<times> bool) list"

subsection \<open>Readiness poll\<close>

record Condition =
  cond_Type :: string
  cond_Status :: string

text \<open>
  What \<^verbatim>\<open>paved.GetValueInto("status", &status)\<close> gives for a listed object: the field is
  missing (the error is ignored and the status stays empty), it cannot be decoded, or it
  decodes to a list of conditions.
\<close>

datatype statusRead = StatusNotFound | StatusInvalid error | StatusConditions "Condition list"

record Resource =
  res_Name :: string
  res_Status :: statusRead

text \<open>\<^verbatim>\<open>ConditionedStatus.GetCondition\<close>: the first condition of the type, else one with status Unknown.\<close>

fun GetCondition :: "Condition list \<Rightarrow> string \<Rightarrow> Condition" where
  "GetCondition [] ct = \<lparr>cond_Type = ct, cond_Status = ''Unknown''\<rparr>"
| "GetCondition (c # cs) ct = (if cond_Type c = ct then c else GetCondition cs ct)"

text \<open>The inner loop over the requested conditions: is one of them not True?\<close>

fun anyUnmet :: "Condition list \<Rightarrow> string list \<Rightarrow> bool" where
  "anyUnmet status [] = False"
| "anyUnmet status (c # cs) =
     (if cond_Status (GetCondition status c) \<noteq> ''True'' then True else anyUnmet status cs)"

text \<open>
  The loop over the listed items, from a running count: \<open>None\<close> when a status cannot be
  read (the poll returns without a verdict), else the number of unmet items.
\<close>

fun countUnmet :: "string list \<Rightarrow> Resource list \<Rightarrow> nat \<Rightarrow> nat option" where
  "countUnmet conditions [] unmet = Some unmet"
| "countUnmet conditions (r # rs) unmet =
     (case res_Status r of
        StatusInvalid err \<Rightarrow> None
      | StatusNotFound \<Rightarrow>
          countUnmet conditions rs (if anyUnmet [] conditions then unmet + 1 else unmet)
      | StatusConditions status \<Rightarrow>
          countUnmet conditions rs (if anyUnmet status conditions then unmet + 1 else unmet))"

text \<open>One run of the polled function on the result of the list call: did it set \<^verbatim>\<open>success\<close>?\<close>

datatype poll = ListFailed error | Listed "Resource list"

definition pollOnce :: "string list \<Rightarrow> poll \<Rightarrow> bool" where
  "pollOnce conditions p =
     (case p of
        ListFailed err \<Rightarrow> False
      | Listed items \<Rightarrow>
          (case countUnmet conditions items 0 of
             None \<Rightarrow> False
           | Some unmet \<Rightarrow> if 0 < unmet then False else True))"

text \<open>
  \<^verbatim>\<open>wait.UntilWithContext\<close> runs the function at once and then every five seconds until the
  context is done. Time is kept out of the model: the argument is the list of results
  that the list call gives on the polls that start before the ten-minute deadline (none
  when the context is already done). The result is the number of the poll that
  succeeded and cancelled the context, \<open>None\<close> when the polls run out.
\<close>

fun pollUntil :: "string list \<Rightarrow> poll list \<Rightarrow> nat \<Rightarrow> nat option" where
  "pollUntil conditions [] n = None"
| "pollUntil conditions (p # ps) n =
     (if pollOnce conditions p then Some (n + 1) else pollUntil conditions ps (n + 1))"

text \<open>\<^verbatim>\<open>GroupKind.String()\<close>, which \<^verbatim>\<open>%q\<close> prints.\<close>

definition GroupKindString :: "GroupKind \<Rightarrow> string" where
  "GroupKindString gk = (if length (gk_Group gk) = 0 then gk_Kind gk else gk_Kind gk @ ''.'' @ gk_Group gk)"

text \<open>From three conditions on: all but the last joined by \<^verbatim>\<open>", "\<close>, then \<^verbatim>\<open>", and "\<close> and the last.\<close>

fun printConditions :: "string list \<Rightarrow> string" where
  "printConditions [] = []"
| "printConditions [c] = c"
| "printConditions [c, d] = c @ '' and '' @ d"
| "printConditions cs = concat (map (\<lambda>c. c @ '', '') (butlast cs)) @ ''and '' @ last cs"

definition waitForConditions ::
  "(GroupKind \<Rightarrow> error + GroupVersionResource) \<Rightarrow> (GroupVersionResource \<Rightarrow> poll list) \<Rightarrow>
   GroupKind \<Rightarrow> string list \<Rightarrow> error option" where
  "waitForConditions mapping polls gk conditions =
     (case mapping gk of
        Inl err \<Rightarrow> Some (Wrapf err ''cannot get REST mapping for %q'' (GroupKindString gk))
      | Inr resource \<Rightarrow>
          (case pollUntil conditions (polls resource) 0 of
             None \<Rightarrow> Some (Errorf ''timeout waiting for conditions %q to be satisfied for all %q''
                              [printConditions conditions, gk_Kind gk])
           | Some n \<Rightarrow> None))"

subsection \<open>The import run\<close>

text \<open>
  The calls of \<open>Import\<close> that reach the target control plane or the REST mapper's cache
  are logged, in the order they are made: \<open>EvImport gr s\<close> for
  \<^verbatim>\<open>r.ImportResources(ctx, gr, s)\<close>, \<open>EvWait gk cs\<close> for \<^verbatim>\<open>im.waitForConditions(ctx, gk, cs)\<close>,
  \<open>EvReset\<close> for \<^verbatim>\<open>im.resourceMapper.Reset()\<close>, \<open>EvModify c\<close> for
  \<^verbatim>\<open>cm.ModifyResources(ctx, c, ...)\<close> with the mutator that removes the pause annotation.
\<close>

datatype event =
    EvImport string bool
  | EvWait GroupKind "string list"
  | EvReset
  | EvModify string

text \<open>
  The collaborators of the importer. What a call returns may depend on everything
  done before it, so each takes the log so far.
  \<open>unarchive\<close> is the outcome of \<^verbatim>\<open>im.unarchive\<close> into a fresh file system: its error, if
  any, and the file system as it leaves it.
\<close>

record ImportEnv =
  listDeployments :: "error + Deployment list"
  unarchive :: "error option \<times> MemFs"
  readExportYaml :: "error + string"
  yamlUnmarshal :: "string \<Rightarrow> error + ExportMeta"
  importResources :: "event list \<Rightarrow> string \<Rightarrow> bool \<Rightarrow> error + nat"
  restMapping :: "event list \<Rightarrow> GroupKind \<Rightarrow> error + GroupVersionResource"
  listPolls :: "event list \<Rightarrow> GroupVersionResource \<Rightarrow> poll list"
  readDirError :: "error option"
  modifyResources :: "event list \<Rightarrow> string \<Rightarrow> error + nat"

text \<open>A run so far: the log, and the error that ended it, if any.\<close>

type_synonym run = "event list \<times> error option"









definition pkgKind :: "string \<Rightarrow> GroupKind" where
  "pkgKind k = \<lparr>gk_Group = ''pkg.crossplane.io'', gk_Kind = k\<rparr>"


subsection \<open>Preflight\<close>

text \<open>
  \<open>PreflightChecks\<close> returns the errors and the importer's file system as it leaves it
  (\<^verbatim>\<open>im.fs\<close> is assigned before \<^verbatim>\<open>unarchive\<close> runs, so it is set even when that fails).
\<close>

fun contains :: "string list \<Rightarrow> string \<Rightarrow> bool" where
  "contains [] s = False"
| "contains (v # ss) s = (if v = s then True else contains ss s)"

definition versionError :: "string \<Rightarrow> string \<Rightarrow> error" where
  "versionError observed exported =
     Errorf ''Crossplane version %q does not match exported version %q'' [observed, exported]"

definition flagError :: "string \<Rightarrow> error" where
  "flagError ff =
     Errorf ''Feature flag %q was set in the exported control plane but is not set in the target control plane for import.'' [ff]"

text \<open>The comparison at the end of \<open>PreflightChecks\<close>: \<^verbatim>\<open>errs\<close> starts nil and is appended to.\<close>

fun flagErrors :: "string list \<Rightarrow> string list \<Rightarrow> error list \<Rightarrow> error list" where
  "flagErrors observed [] errs = errs"
| "flagErrors observed (ff # ffs) errs =
     flagErrors observed ffs (if \<not> contains observed ff then errs @ [flagError ff] else errs)"

definition compareInfo :: "CrossplaneInfo \<Rightarrow> ExportMeta \<Rightarrow> error list" where
  "compareInfo observed em =
     flagErrors (xp_FeatureFlags observed) (xp_FeatureFlags (em_Crossplane em))
       (if xp_Version observed \<noteq> xp_Version (em_Crossplane em)
        then [versionError (xp_Version observed) (xp_Version (em_Crossplane em))]
        else [])"

definition PreflightChecks :: "ImportEnv \<Rightarrow> MemFs option \<Rightarrow> error list \<times> MemFs option" where
  "PreflightChecks env imfs =
     (case CollectInfo (listDeployments env) of
        Inl err \<Rightarrow> ([Wrap err ''Cannot get Crossplane info''], imfs)
      | Inr observed \<Rightarrow>
          (case (case imfs of None \<Rightarrow> unarchive env | Some fs \<Rightarrow> (None, fs)) of
             (Some err, fs) \<Rightarrow> ([Wrap err ''Cannot unarchive export archive''], Some fs)
           | (None, fs) \<Rightarrow>
               (case readExportYaml env of
                  Inl err \<Rightarrow> ([Wrap err ''Cannot read export metadata''], Some fs)
                | Inr b \<Rightarrow>
                    (case yamlUnmarshal env b of
                       Inl err \<Rightarrow> ([Wrap err ''Cannot unmarshal export metadata''], Some fs)
                     | Inr em \<Rightarrow> (compareInfo observed em, Some fs)))))"

section \<open>The replay order in the words of the specification\<close>










section \<open>Failing steps, in the words of the specification\<close>

text \<open>
  A step of the export fails: for a selected definition, the resolution of its resource
  or the export of its objects; for a native type, the same two calls; for the
  manifest, the metadata exporter called with the counts of the two passes.
\<close>

definition customStepFails :: "ExportEnv \<Rightarrow> CustomResourceDefinition \<Rightarrow> bool" where
  "customStepFails env crd =
     (case customResourceGVR (crdMapper env) crd of
        Inl err \<Rightarrow> True
      | Inr gvr \<Rightarrow>
          isl (exportResources env gvr
                 (Some \<lparr>tm_Categories = crd_Categories crd,
                        tm_WithStatusSubresource = hasStatusSubresource (crd_Versions crd)\<rparr>)))"

definition nativeStepFails :: "ExportEnv \<Rightarrow> string \<Rightarrow> bool" where
  "nativeStepFails env r =
     (case resourceFor env r of
        Inl err \<Rightarrow> True
      | Inr gvr \<Rightarrow> isl (exportResources env gvr None))"

definition metadataFails :: "ExportEnv \<Rightarrow> Options \<Rightarrow> bool" where
  "metadataFails env opts =
     (case fetchAllCRDs env of
        Inl err \<Rightarrow> False
      | Inr crdList \<Rightarrow>
          (case exportCustom env (filter (shouldExport opts) crdList) Map.empty of
             Inl err \<Rightarrow> False
           | Inr crCounts \<Rightarrow>
               (case exportNative env (extraResources opts) Map.empty of
                  Inl err \<Rightarrow> False
                | Inr nativeCounts \<Rightarrow> exportMetadata env opts nativeCounts crCounts \<noteq> None)))"

text \<open>Some step of an export run fails.\<close>

definition someStepFails :: "ExportEnv \<Rightarrow> Options \<Rightarrow> bool" where
  "someStepFails env opts =
     (isl (tempDir env) \<or>
      (PauseBeforeExport opts \<and> isl (pauseManaged env)) \<or>
      (case fetchAllCRDs env of
         Inl err \<Rightarrow> True
       | Inr crdList \<Rightarrow> list_ex (customStepFails env) (filter (shouldExport opts) crdList)) \<or>
      list_ex (nativeStepFails env) (extraResources opts) \<or>
      metadataFails env opts \<or>
      createError env \<noteq> None \<or> chmodError env \<noteq> None \<or> walkError env \<noteq> None)"







section \<open>Sample inputs\<close>

definition zeroOptions :: Options where
  "zeroOptions =
     \<lparr>OutputArchive = ''xp-state.tar.gz'', IncludeNamespaces = [], ExcludeNamespaces = [],
      IncludeExtraResources = [], ExcludeResources = [], PauseBeforeExport = False\<rparr>"

definition tenantOptions :: Options where
  "tenantOptions =
     \<lparr>OutputArchive = ''xp-state.tar.gz'',
      IncludeNamespaces = [''tenant-a'', ''kube-system''], ExcludeNamespaces = [''kube-system''],
      IncludeExtraResources = [''namespaces'', ''configmaps'', ''secrets'', ''widgets.example.org''],
      ExcludeResources = [''secrets''], PauseBeforeExport = False\<rparr>"

definition bothListedOptions :: Options where
  "bothListedOptions =
     \<lparr>OutputArchive = ''xp-state.tar.gz'', IncludeNamespaces = [], ExcludeNamespaces = [],
      IncludeExtraResources = [''widgets.example.org''], ExcludeResources = [''widgets.example.org''],
      PauseBeforeExport = False\<rparr>"

text \<open>A Secret that carries the Helm release type under \<^verbatim>\<open>spec\<close>.\<close>

definition specTypeSecret :: Unstructured where
  "specTypeSecret =
     [(''apiVersion'', JStr ''v1''), (''kind'', JStr ''Secret''),
      (''metadata'', JObj [(''name'', JStr ''release''), (''namespace'', JStr ''default'')]),
      (''spec'', JObj [(''type'', JStr ''helm.sh/release.v1'')])]"

text \<open>A Helm release Secret as the API server returns it: \<^verbatim>\<open>type\<close> at the top level.\<close>

definition helmReleaseSecret :: Unstructured where
  "helmReleaseSecret =
     [(''apiVersion'', JStr ''v1''), (''kind'', JStr ''Secret''),
      (''metadata'', JObj [(''name'', JStr ''release''), (''namespace'', JStr ''default'')]),
      (''type'', JStr ''helm.sh/release.v1'')]"

definition settingsConfigMap :: Unstructured where
  "settingsConfigMap =
     [(''apiVersion'', JStr ''v1''), (''kind'', JStr ''ConfigMap''),
      (''metadata'', JObj [(''name'', JStr ''settings''), (''namespace'', JStr ''default'')])]"

text \<open>A server that returns two pages: the Helm release Secret, then a ConfigMap.\<close>

definition twoPages :: DynamicClient where
  "twoPages gvr limit token =
     (if token = [] then Inr ([helmReleaseSecret], ''page-2'')
      else if token = ''page-2'' then Inr ([settingsConfigMap], [])
      else Inl (External ''invalid continue token''))"

definition secretsGVR :: GroupVersionResource where
  "secretsGVR = \<lparr>gvr_Group = [], gvr_Version = ''v1'', gvr_Resource = ''secrets''\<rparr>"

definition openMapper :: RESTMapper where
  "openMapper gk version =
     Inr \<lparr>gvr_Group = gk_Group gk, gvr_Version = version, gvr_Resource = ''widgets''\<rparr>"

definition strictMapper :: RESTMapper where
  "strictMapper gk version =
     (if version = ''v1''
      then Inr \<lparr>gvr_Group = gk_Group gk, gvr_Version = version, gvr_Resource = ''widgets''\<rparr>
      else Inl (External ''no matches for kind''))"

definition widgetCRD :: CustomResourceDefinition where
  "widgetCRD =
     \<lparr>crd_Name = ''widgets.example.org'', crd_OwnerReferences = [], crd_Group = ''example.org'',
      crd_Kind = ''Widget'', crd_Categories = [],
      crd_Versions =
        [\<lparr>ver_Name = ''v1'', ver_Storage = True, ver_HasStatusSubresource = True\<rparr>,
         \<lparr>ver_Name = ''v1beta1'', ver_Storage = False, ver_HasStatusSubresource = True\<rparr>]\<rparr>"

definition noStorageCRD :: CustomResourceDefinition where
  "noStorageCRD =
     \<lparr>crd_Name = ''widgets.example.org'', crd_OwnerReferences = [], crd_Group = ''example.org'',
      crd_Kind = ''Widget'', crd_Categories = [],
      crd_Versions = [\<lparr>ver_Name = ''v1'', ver_Storage = False, ver_HasStatusSubresource = False\<rparr>]\<rparr>"

text \<open>An export in which every step succeeds but the \<^verbatim>\<open>Chmod\<close> of the output file.\<close>

definition chmodFailingEnv :: ExportEnv where
  "chmodFailingEnv =
     \<lparr>tempDir = Inr ''/tmp/up1'', pauseManaged = Inr 0, fetchAllCRDs = Inr [],
      crdMapper = openMapper,
      resourceFor = (\<lambda>r. Inr \<lparr>gvr_Group = [], gvr_Version = ''v1'', gvr_Resource = r\<rparr>),
      exportResources = (\<lambda>gvr tm. Inr 0),
      exportMetadata = (\<lambda>opts native custom. None),
      createError = None,
      chmodError = Some (External ''operation not permitted''),
      walkError = None\<rparr>"

text \<open>An export in which listing the definitions fails.\<close>

definition listFailingEnv :: ExportEnv where
  "listFailingEnv =
     \<lparr>tempDir = Inr ''/tmp/up1'', pauseManaged = Inr 0,
      fetchAllCRDs = Inl (External ''connection refused''),
      crdMapper = openMapper,
      resourceFor = (\<lambda>r. Inr \<lparr>gvr_Group = [], gvr_Version = ''v1'', gvr_Resource = r\<rparr>),
      exportResources = (\<lambda>gvr tm. Inr 0),
      exportMetadata = (\<lambda>opts native custom. None),
      createError = None, chmodError = None, walkError = None\<rparr>"

definition sampleRoot :: MemFs where
  "sampleRoot =
     [(''buckets.s3.aws.upbound.io'', True), (''export.yaml'', False), (''namespaces'', True),
      (''xwidgets.example.org'', True)]"

definition crossplaneDeployment :: Deployment where
  "crossplaneDeployment =
     \<lparr>d_Name = ''crossplane'', d_Namespace = ''crossplane-system'',
      d_Labels = Some [(''app.kubernetes.io/version'', ''1.14.0''),
                       (''app.kubernetes.io/instance'', ''crossplane'')],
      d_Containers =
        [\<lparr>c_Name = ''crossplane'',
          c_Args = [''core'', ''start'', ''--enable-usages'', ''--enable-realtime-compositions'']\<rparr>]\<rparr>"

definition otherDeployment :: Deployment where
  "otherDeployment =
     \<lparr>d_Name = ''coredns'', d_Namespace = ''kube-system'', d_Labels = None, d_Containers = []\<rparr>"

definition sampleMeta :: ExportMeta where
  "sampleMeta =
     \<lparr>em_Crossplane =
        \<lparr>xp_Version = ''1.13.2'', xp_Distribution = ''crossplane'', xp_Namespace = ''crossplane-system'',
         xp_FeatureFlags = [''--enable-usages'', ''--enable-environment-configs'']\<rparr>\<rparr>"

text \<open>
  A target on which every call succeeds and every readiness poll finds nothing to wait
  for, with the given deployments.
\<close>

definition sampleTarget :: "Deployment list \<Rightarrow> ImportEnv" where
  "sampleTarget deployments =
     \<lparr>listDeployments = Inr deployments,
      unarchive = (None, sampleRoot),
      readExportYaml = Inr ''version: v1alpha1'',
      yamlUnmarshal = (\<lambda>b. Inr sampleMeta),
      importResources = (\<lambda>tr gr withStatus. Inr 0),
      restMapping = (\<lambda>tr gk. Inr \<lparr>gvr_Group = gk_Group gk, gvr_Version = ''v1'', gvr_Resource = gk_Kind gk\<rparr>),
      listPolls = (\<lambda>tr resource. [Listed []]),
      readDirError = None,
      modifyResources = (\<lambda>tr category. Inr 0)\<rparr>"




section \<open>Key sets\<close>

lemma set_fold_keyPut: "set (fold keyPut xs m) = set m \<union> set xs"
  by (induction xs arbitrary: m) (auto simp: keyPut_def)

lemma distinct_fold_keyPut: "distinct m \<Longrightarrow> distinct (fold keyPut xs m)"
  by (induction xs arbitrary: m) (auto simp: keyPut_def)

lemma set_fold_keyDelete: "set (fold keyDelete xs m) = set m - set xs"
  by (induction xs arbitrary: m) (auto simp: keyDelete_def)

lemma distinct_fold_keyDelete: "distinct m \<Longrightarrow> distinct (fold keyDelete xs m)"
  by (induction xs arbitrary: m) (auto simp: keyDelete_def distinct_removeAll)

lemma fold_keyDelete_Nil: "fold keyDelete xs [] = []"
  by (induction xs) (auto simp: keyDelete_def)

lemma rangeFinds_iff: "rangeFinds gr rs = (gr \<in> set rs)"
  by (induction rs) auto

section \<open>Properties of the fetcher\<close>

text \<open>
  C8. A namespace is in scope exactly when the include set is empty or holds it, and the
  exclude set does not hold it; the sets are those of the fetcher built from the options.
  So a namespace that is in both sets is never in scope.
\<close>

theorem namespaceInScope_iff:
  "namespaceInScope (NewUnstructuredFetcher opts) n =
     ((set (IncludeNamespaces opts) = {} \<or> n \<in> set (IncludeNamespaces opts)) \<and>
      n \<notin> set (ExcludeNamespaces opts))
   \<and> \<not> (n \<in> set (IncludeNamespaces opts) \<and> n \<in> set (ExcludeNamespaces opts) \<and>
        namespaceInScope (NewUnstructuredFetcher opts) n)"
  by (auto simp: namespaceInScope_def NewUnstructuredFetcher_def keyHas_def set_fold_keyPut
      simp flip: set_empty)

text \<open>
  With \<^verbatim>\<open>tenant-a\<close> and \<^verbatim>\<open>kube-system\<close> included and \<^verbatim>\<open>kube-system\<close> excluded: the first is
  in scope, the second (in both sets) and a third namespace (not included) are not.
\<close>

theorem namespaceInScope_iff_witness:
  "namespaceInScope (NewUnstructuredFetcher tenantOptions) ''tenant-a'' \<and>
   \<not> namespaceInScope (NewUnstructuredFetcher tenantOptions) ''kube-system'' \<and>
   \<not> namespaceInScope (NewUnstructuredFetcher tenantOptions) ''tenant-b''"
  using namespaceInScope_iff[of tenantOptions "''tenant-a''"]
    namespaceInScope_iff[of tenantOptions "''kube-system''"]
    namespaceInScope_iff[of tenantOptions "''tenant-b''"]
  by (simp add: tenantOptions_def)

lemma fetchPages_kept:
  "fetchPages kube e gvr token acc = Some res \<Longrightarrow>
   (\<forall>rs. res = Inr rs \<longrightarrow> (\<forall>r \<in> set acc. \<not> shouldSkip e r) \<longrightarrow>
      (\<forall>r \<in> set rs. \<not> shouldSkip e r))"
proof (induction rule: fetchPages.raw_induct[rotated 1, consumes 1])
  case (1 fetch kube e gvr token acc res)
  show ?case
  proof (cases "kube gvr (pageSize e) token")
    case (Inl err)
    with 1(2) have "res = Inl (Wrapf err ''cannot list %q resources'' (GroupResourceString gvr))"
      by simp
    then show ?thesis by simp
  next
    case (Inr page)
    obtain items nxt where page: "page = (items, nxt)" by (cases page)
    define acc' where "acc' = acc @ filter (\<lambda>r. \<not> shouldSkip e r) items"
    have keep: "(\<forall>r \<in> set acc. \<not> shouldSkip e r) \<Longrightarrow> (\<forall>r \<in> set acc'. \<not> shouldSkip e r)"
      by (simp add: acc'_def ball_Un)
    show ?thesis
    proof (cases "nxt = []")
      case True
      with 1(2) Inr page have "res = Inr acc'" by (simp add: acc'_def)
      then show ?thesis using keep by blast
    next
      case False
      with 1(2) Inr page have "fetch kube e gvr nxt acc' = Some res" by (simp add: acc'_def)
      from 1(1)[OF this] show ?thesis using keep by blast
    qed
  qed
qed

lemma FetchResources_kept:
  "FetchResources kube e gvr = Some (Inr rs) \<Longrightarrow> r \<in> set rs \<Longrightarrow> \<not> shouldSkip e r"
  using fetchPages_kept[of kube e gvr "[]" "[]" "Inr rs"] by (simp add: FetchResources_def)

text \<open>
  C2, as amended. An object of kind \<^verbatim>\<open>Secret\<close> whose top-level field \<^verbatim>\<open>type\<close> is a string
  that starts with \<^verbatim>\<open>helm.sh/release\<close> is skipped by every fetcher, whatever its namespace,
  and is in no list of resources that \<open>FetchResources\<close> returns for the archive.
\<close>

theorem shouldSkip_helm_secret:
  "GetKind r = ''Secret'' \<Longrightarrow> HasPrefix (GetString r [''type'']) ''helm.sh/release'' \<Longrightarrow>
   shouldSkip e r \<and>
   (\<forall>kube gvr rs. FetchResources kube e gvr = Some (Inr rs) \<longrightarrow> r \<notin> set rs)"
proof -
  assume "GetKind r = ''Secret''" and "HasPrefix (GetString r [''type'']) ''helm.sh/release''"
  then have skip: "shouldSkip e r" by (simp add: shouldSkip_def)
  then have "r \<notin> set rs" if "FetchResources kube e gvr = Some (Inr rs)" for kube gvr rs
    using FetchResources_kept[OF that] by blast
  with skip show ?thesis by blast
qed

text \<open>
  The Helm release Secret of the default namespace, with every namespace in scope: it
  is skipped, and a fetch over two pages returns the ConfigMap of the second page only.
\<close>

theorem shouldSkip_helm_secret_witness:
  "GetKind helmReleaseSecret = ''Secret'' \<and>
   HasPrefix (GetString helmReleaseSecret [''type'']) ''helm.sh/release'' \<and>
   namespaceInScope (NewUnstructuredFetcher zeroOptions) (GetNamespace helmReleaseSecret) \<and>
   shouldSkip (NewUnstructuredFetcher zeroOptions) helmReleaseSecret \<and>
   FetchResources twoPages (NewUnstructuredFetcher zeroOptions) secretsGVR =
     Some (Inr [settingsConfigMap]) \<and>
   helmReleaseSecret \<notin> set [settingsConfigMap]"
proof -
  let ?e = "NewUnstructuredFetcher zeroOptions"
  have k: "GetKind helmReleaseSecret = ''Secret''"
    by (simp add: helmReleaseSecret_def GetKind_def getNestedString_def)
  have t: "HasPrefix (GetString helmReleaseSecret [''type'']) ''helm.sh/release''"
    by (simp add: helmReleaseSecret_def GetString_def HasPrefix_def)
  have n: "namespaceInScope ?e (GetNamespace helmReleaseSecret)"
    by (simp add: namespaceInScope_def NewUnstructuredFetcher_def zeroOptions_def keyHas_def)
  have kept: "\<not> shouldSkip ?e settingsConfigMap"
    by (simp add: shouldSkip_def settingsConfigMap_def zeroOptions_def GetKind_def GetString_def
        GetNamespace_def GetName_def GetLabels_def GetOwnerReferences_def GetAPIVersion_def
        getNestedString_def HasPrefix_def namespaceInScope_def NewUnstructuredFetcher_def
        keyHas_def)
  have skipped: "shouldSkip ?e helmReleaseSecret"
    using shouldSkip_helm_secret[OF k t, of ?e] by simp
  have second: "fetchPages twoPages ?e secretsGVR ''page-2'' [] = Some (Inr [settingsConfigMap])"
    by (subst fetchPages.simps) (simp add: twoPages_def kept)
  have fetched: "FetchResources twoPages ?e secretsGVR = Some (Inr [settingsConfigMap])"
    unfolding FetchResources_def
    by (subst fetchPages.simps) (simp add: twoPages_def skipped second)
  have absent: "helmReleaseSecret \<notin> set [settingsConfigMap]"
    using shouldSkip_helm_secret[OF k t, of ?e] fetched by blast
  show ?thesis
    using k t n skipped fetched absent by simp
qed

text \<open>
  C2 as stated fails: a Secret in an in-scope namespace whose \<^verbatim>\<open>spec.type\<close> starts with
  \<^verbatim>\<open>helm.sh/release\<close>, and that has no top-level \<^verbatim>\<open>type\<close>, is kept.
\<close>

theorem shouldSkip_spec_type_counterexample:
  "GetKind specTypeSecret = ''Secret'' \<and>
   HasPrefix (GetString specTypeSecret [''spec'', ''type'']) ''helm.sh/release'' \<and>
   namespaceInScope (NewUnstructuredFetcher zeroOptions) (GetNamespace specTypeSecret) \<and>
   \<not> shouldSkip (NewUnstructuredFetcher zeroOptions) specTypeSecret"
  by (simp add: shouldSkip_def specTypeSecret_def zeroOptions_def GetKind_def GetString_def
      GetNamespace_def GetName_def GetLabels_def GetOwnerReferences_def GetAPIVersion_def
      getNestedString_def HasPrefix_def namespaceInScope_def NewUnstructuredFetcher_def keyHas_def)

section \<open>Properties of the schema selector\<close>

text \<open>
  C1, as amended. The native-type universe of the exporter is the include-extra-resources
  list as a set, minus the exclude-resources list, with no key twice; the exporter puts
  no default in: with an empty include list the universe is empty.
\<close>

theorem extraResources_set:
  "set (extraResources opts) = set (IncludeExtraResources opts) - set (ExcludeResources opts) \<and>
   distinct (extraResources opts) \<and>
   extraResources (opts\<lparr>IncludeExtraResources := []\<rparr>) = []"
  by (simp add: extraResources_def set_fold_keyDelete set_fold_keyPut distinct_fold_keyDelete
      distinct_fold_keyPut fold_keyDelete_Nil)

theorem extraResources_set_witness:
  "set (extraResources tenantOptions) = {''namespaces'', ''configmaps'', ''widgets.example.org''}"
  using extraResources_set[of tenantOptions] by (auto simp: tenantOptions_def)

text \<open>
  C1 as stated fails: with nothing to include, the universe is not the set of the three
  default types.
\<close>

theorem extraResources_default_counterexample:
  "IncludeExtraResources zeroOptions = [] \<and>
   set (extraResources zeroOptions) \<noteq> {''namespaces'', ''configmaps'', ''secrets''}"
  by (simp add: extraResources_def zeroOptions_def)

lemma ownerSelects_iff:
  "ownerSelects refs =
     ((\<exists>ref \<in> set refs. or_APIVersion ref = ''pkg.crossplane.io/v1'') \<or>
      (\<exists>ref \<in> set refs. or_APIVersion ref = ''apiextensions.crossplane.io/v1'' \<and>
                         or_Kind ref = ''CompositeResourceDefinition''))"
  by (induction refs) auto

text \<open>
  C6, as amended. A definition is selected exactly when it has an owner reference with
  apiVersion \<^verbatim>\<open>pkg.crossplane.io/v1\<close>, or one with apiVersion
  \<^verbatim>\<open>apiextensions.crossplane.io/v1\<close> and kind \<^verbatim>\<open>CompositeResourceDefinition\<close>, or its name
  ends in \<^verbatim>\<open>.crossplane.io\<close>, or its name is in the include-extra-resources list and not in
  the exclude-resources list.
\<close>

theorem shouldExport_iff:
  "shouldExport opts crd =
     ((\<exists>ref \<in> set (crd_OwnerReferences crd). or_APIVersion ref = ''pkg.crossplane.io/v1'') \<or>
      (\<exists>ref \<in> set (crd_OwnerReferences crd).
          or_APIVersion ref = ''apiextensions.crossplane.io/v1'' \<and>
          or_Kind ref = ''CompositeResourceDefinition'') \<or>
      HasSuffix (crd_Name crd) ''.crossplane.io'' \<or>
      (crd_Name crd \<in> set (IncludeExtraResources opts) \<and>
       crd_Name crd \<notin> set (ExcludeResources opts)))"
  by (auto simp: shouldExport_def ownerSelects_iff IncludedExtraResource_def rangeFinds_iff
      extraResources_def set_fold_keyDelete set_fold_keyPut)

theorem shouldExport_iff_witness:
  "shouldExport tenantOptions widgetCRD \<and> \<not> shouldExport zeroOptions widgetCRD"
  using shouldExport_iff[of tenantOptions widgetCRD] shouldExport_iff[of zeroOptions widgetCRD]
  by (simp add: tenantOptions_def zeroOptions_def widgetCRD_def HasSuffix_def)

text \<open>
  C6 as stated fails: a definition named in the include-extra-resources list, and in the
  exclude-resources list too, is not selected.
\<close>

theorem shouldExport_excluded_counterexample:
  "crd_Name widgetCRD \<in> set (IncludeExtraResources bothListedOptions) \<and>
   \<not> shouldExport bothListedOptions widgetCRD"
  by (simp add: shouldExport_def IncludedExtraResource_def extraResources_def keyPut_def
      keyDelete_def bothListedOptions_def widgetCRD_def HasSuffix_def)

lemma storageVersion_fold:
  "fold (\<lambda>vr version. if ver_Storage vr then ver_Name vr else version) vs v =
     (case rev (filter ver_Storage vs) of [] \<Rightarrow> v | vr # _ \<Rightarrow> ver_Name vr)"
  by (induction vs arbitrary: v) (auto split: list.splits)

text \<open>
  C7, as amended. \<open>customResourceGVR\<close> returns an error exactly when the REST mapping of
  (group, kind, version) fails, where the version is the name of the last version
  marked as storage, and the empty string when none is.
\<close>

theorem customResourceGVR_error_iff:
  "isl (customResourceGVR mapper crd) =
     isl (mapper \<lparr>gk_Group = crd_Group crd, gk_Kind = crd_Kind crd\<rparr>
                 (storageVersion (crd_Versions crd))) \<and>
   storageVersion (crd_Versions crd) =
     (case rev (filter ver_Storage (crd_Versions crd)) of [] \<Rightarrow> [] | vr # _ \<Rightarrow> ver_Name vr)"
proof
  show "isl (customResourceGVR mapper crd) =
      isl (mapper \<lparr>gk_Group = crd_Group crd, gk_Kind = crd_Kind crd\<rparr>
                  (storageVersion (crd_Versions crd)))"
    by (cases "mapper \<lparr>gk_Group = crd_Group crd, gk_Kind = crd_Kind crd\<rparr>
                  (storageVersion (crd_Versions crd))")
       (simp_all add: customResourceGVR_def)
  show "storageVersion (crd_Versions crd) =
      (case rev (filter ver_Storage (crd_Versions crd)) of [] \<Rightarrow> [] | vr # _ \<Rightarrow> ver_Name vr)"
    unfolding storageVersion_def by (rule storageVersion_fold)
qed

theorem customResourceGVR_error_iff_witness:
  "customResourceGVR strictMapper widgetCRD =
     Inr \<lparr>gvr_Group = ''example.org'', gvr_Version = ''v1'', gvr_Resource = ''widgets''\<rparr> \<and>
   isl (customResourceGVR strictMapper noStorageCRD)"
  using customResourceGVR_error_iff[of strictMapper widgetCRD]
    customResourceGVR_error_iff[of strictMapper noStorageCRD]
  by (simp add: customResourceGVR_def strictMapper_def widgetCRD_def noStorageCRD_def)

text \<open>
  C7 as stated fails: for a definition without a storage version, a mapper that resolves
  the empty version makes \<open>customResourceGVR\<close> return a resource, not an error.
\<close>

theorem customResourceGVR_no_storage_counterexample:
  "filter ver_Storage (crd_Versions noStorageCRD) = [] \<and>
   \<not> isl (customResourceGVR openMapper noStorageCRD)"
  by (simp add: noStorageCRD_def openMapper_def customResourceGVR_def storageVersion_def)

section \<open>Properties of the exporter\<close>

lemma archive_paths:
  "archive env opts dir fs = (res, fs') \<Longrightarrow>
     (createError env \<noteq> None \<longrightarrow> fs' = fs) \<and>
     (createError env = None \<longrightarrow> fs' = insert (OutputArchive opts) fs)"
  by (auto simp: archive_def Let_def split: option.splits)

lemma exportCustom_error: "exportCustom env crds counts = Inl err \<Longrightarrow> \<exists>a b c. err = Wrapf a b c"
  by (induction crds arbitrary: counts) (auto split: sum.splits)

lemma exportNative_error: "exportNative env rs counts = Inl err \<Longrightarrow> \<exists>a b c. err = Wrapf a b c"
  by (induction rs arbitrary: counts) (auto split: sum.splits)

lemma exportSteps_untouched:
  assumes "exportSteps env opts tmpDir fs = (res, fs')"
    and "res \<noteq> None"
    and "(\<nexists>x. res = Some (Wrap x ''cannot archive exported state'')) \<or> createError env \<noteq> None"
  shows "fs' = fs"
  using assms archive_paths[of env opts tmpDir fs]
  by (auto simp: exportSteps_def split: sum.splits option.splits prod.splits if_splits)

lemma exportSteps_created:
  assumes "exportSteps env opts tmpDir fs = (Some (Wrap x ''cannot archive exported state''), fs')"
    and "createError env = None"
  shows "fs' = insert (OutputArchive opts) fs"
  using assms archive_paths[of env opts tmpDir fs]
  by (auto simp: exportSteps_def split: sum.splits option.splits prod.splits if_splits
      dest: exportCustom_error exportNative_error)

lemma exportCustom_isl: "isl (exportCustom env crds counts) = list_ex (customStepFails env) crds"
  by (induction crds arbitrary: counts) (auto simp: customStepFails_def split: sum.splits)

lemma exportNative_isl: "isl (exportNative env rs counts) = list_ex (nativeStepFails env) rs"
  by (induction rs arbitrary: counts) (auto simp: nativeStepFails_def split: sum.splits)

lemma archive_fails:
  "(fst (archive env opts dir fs) \<noteq> None) =
     (createError env \<noteq> None \<or> chmodError env \<noteq> None \<or> walkError env \<noteq> None)"
  by (auto simp: archive_def Let_def split: option.splits)

lemma exportSteps_fails:
  "(fst (exportSteps env opts tmpDir fs) \<noteq> None) =
     ((PauseBeforeExport opts \<and> isl (pauseManaged env)) \<or>
      (case fetchAllCRDs env of
         Inl err \<Rightarrow> True
       | Inr crdList \<Rightarrow> list_ex (customStepFails env) (filter (shouldExport opts) crdList)) \<or>
      list_ex (nativeStepFails env) (extraResources opts) \<or>
      metadataFails env opts \<or>
      createError env \<noteq> None \<or> chmodError env \<noteq> None \<or> walkError env \<noteq> None)"
proof -
  have a: "fst (archive env opts tmpDir fs) = None \<longleftrightarrow>
      createError env = None \<and> chmodError env = None \<and> walkError env = None"
    using archive_fails[of env opts tmpDir fs] by blast
  show ?thesis
  proof (cases "fetchAllCRDs env")
    case (Inl err)
    then show ?thesis
      by (auto simp: exportSteps_def split: sum.splits)
  next
    case (Inr crdList)
    note c = exportCustom_isl[of env "filter (shouldExport opts) crdList" Map.empty]
    note n = exportNative_isl[of env "extraResources opts" Map.empty]
    show ?thesis
      using c n a Inr
      by (auto simp: exportSteps_def metadataFails_def isl_def
          split: sum.splits option.splits prod.splits)
  qed
qed

lemma Export_fails: "(fst (Export env opts fs) \<noteq> None) = someStepFails env opts"
proof (cases "tempDir env")
  case (Inl err)
  then show ?thesis by (simp add: Export_def someStepFails_def)
next
  case (Inr tmpDir)
  then have "fst (Export env opts fs) = fst (exportSteps env opts tmpDir (insert tmpDir fs))"
    by (simp add: Export_def split: prod.splits)
  then show ?thesis
    using exportSteps_fails[of env opts tmpDir "insert tmpDir fs"] Inr
    by (simp add: someStepFails_def)
qed

text \<open>
  C4, as amended. Every error aborts the export run: \<open>Export\<close> returns an error exactly
  when some step fails (the creation of the temporary directory, the pause, the listing
  of the definitions, a selected definition, a native type, the manifest, or the
  creation, \<^verbatim>\<open>Chmod\<close> or filling of the archive). The temporary directory does not exist
  when \<open>Export\<close> returns, whether it succeeds or fails. When \<open>Export\<close> fails before the
  archive step, or in it because the output file cannot be created, every path that
  exists afterwards existed before: the run leaves no output archive of its own. When
  it fails in the archive step after the output file was created, the file is still at
  the output path (unless that path is the temporary directory or lies below it).
\<close>

theorem Export_cleanup:
  assumes "Export env opts fs = (res, fs')"
  shows "(res \<noteq> None) = someStepFails env opts \<and>
         (\<forall>tmpDir. tempDir env = Inr tmpDir \<longrightarrow> tmpDir \<notin> fs') \<and>
         (res \<noteq> None \<and>
          ((\<nexists>x. res = Some (Wrap x ''cannot archive exported state'')) \<or> createError env \<noteq> None)
            \<longrightarrow> fs' \<subseteq> fs) \<and>
         (\<forall>x tmpDir. res = Some (Wrap x ''cannot archive exported state'') \<and> createError env = None \<and>
            tempDir env = Inr tmpDir \<and> OutputArchive opts \<noteq> tmpDir \<and>
            \<not> HasPrefix (OutputArchive opts) (tmpDir @ ''/'')
            \<longrightarrow> OutputArchive opts \<in> fs')"
proof -
  have aborts: "(res \<noteq> None) = someStepFails env opts"
    using Export_fails[of env opts fs] assms by simp
  have rest: "(\<forall>tmpDir. tempDir env = Inr tmpDir \<longrightarrow> tmpDir \<notin> fs') \<and>
         (res \<noteq> None \<and>
          ((\<nexists>x. res = Some (Wrap x ''cannot archive exported state'')) \<or> createError env \<noteq> None)
            \<longrightarrow> fs' \<subseteq> fs) \<and>
         (\<forall>x tmpDir. res = Some (Wrap x ''cannot archive exported state'') \<and> createError env = None \<and>
            tempDir env = Inr tmpDir \<and> OutputArchive opts \<noteq> tmpDir \<and>
            \<not> HasPrefix (OutputArchive opts) (tmpDir @ ''/'')
            \<longrightarrow> OutputArchive opts \<in> fs')"
  proof (cases "tempDir env")
    case (Inl err)
    then show ?thesis using assms by (auto simp: Export_def)
  next
    case (Inr tmpDir)
    obtain r1 fs1 where s: "exportSteps env opts tmpDir (insert tmpDir fs) = (r1, fs1)"
      by (cases "exportSteps env opts tmpDir (insert tmpDir fs)")
    have e: "res = r1" "fs' = RemoveAll tmpDir fs1"
      using assms Inr s by (auto simp: Export_def)
    have gone: "tmpDir \<notin> fs'" by (simp add: e RemoveAll_def)
    have untouched: "fs' \<subseteq> fs"
      if "res \<noteq> None"
        "(\<nexists>x. res = Some (Wrap x ''cannot archive exported state'')) \<or> createError env \<noteq> None"
    proof -
      have "fs1 = insert tmpDir fs" using exportSteps_untouched[OF s] that e by blast
      then show ?thesis by (auto simp: e RemoveAll_def)
    qed
    have left: "OutputArchive opts \<in> fs'"
      if "res = Some (Wrap x ''cannot archive exported state'')" "createError env = None"
        "OutputArchive opts \<noteq> tmpDir" "\<not> HasPrefix (OutputArchive opts) (tmpDir @ ''/'')" for x
    proof -
      have "fs1 = insert (OutputArchive opts) (insert tmpDir fs)"
        using exportSteps_created[of env opts tmpDir "insert tmpDir fs" x fs1] s e that by simp
      then show ?thesis using that by (simp add: e RemoveAll_def)
    qed
    show ?thesis using gone untouched left Inr by auto
  qed
  from aborts rest show ?thesis by blast
qed

text \<open>
  A run in which listing the definitions fails, over a file system with one file: a
  step fails, the run returns an error, the temporary directory is gone and no path was
  added.
\<close>

theorem Export_cleanup_witness:
  "someStepFails listFailingEnv zeroOptions \<and>
   fst (Export listFailingEnv zeroOptions {''/home/u/notes.txt''}) =
     Some (Wrap (External ''connection refused'') ''cannot fetch CRDs'') \<and>
   tempDir listFailingEnv = Inr ''/tmp/up1'' \<and>
   ''/tmp/up1'' \<notin> snd (Export listFailingEnv zeroOptions {''/home/u/notes.txt''}) \<and>
   snd (Export listFailingEnv zeroOptions {''/home/u/notes.txt''}) \<subseteq> {''/home/u/notes.txt''}"
proof -
  have run: "Export listFailingEnv zeroOptions {''/home/u/notes.txt''} =
      (fst (Export listFailingEnv zeroOptions {''/home/u/notes.txt''}),
       snd (Export listFailingEnv zeroOptions {''/home/u/notes.txt''}))"
    by simp
  have failed: "fst (Export listFailingEnv zeroOptions {''/home/u/notes.txt''}) =
      Some (Wrap (External ''connection refused'') ''cannot fetch CRDs'')"
    by (simp add: Export_def exportSteps_def listFailingEnv_def zeroOptions_def)
  have t: "tempDir listFailingEnv = Inr ''/tmp/up1''"
    by (simp add: listFailingEnv_def)
  show ?thesis using Export_cleanup[OF run] failed t by simp
qed

text \<open>
  C4 as stated fails: when \<^verbatim>\<open>Chmod\<close> of the output file fails, \<open>Export\<close> returns an error
  and the output file, absent before the run, exists after it.
\<close>

theorem Export_partial_archive_counterexample:
  "fst (Export chmodFailingEnv zeroOptions {}) \<noteq> None \<and>
   OutputArchive zeroOptions \<notin> {} \<and>
   OutputArchive zeroOptions \<in> snd (Export chmodFailingEnv zeroOptions {})"
  by (simp add: Export_def exportSteps_def chmodFailingEnv_def zeroOptions_def extraResources_def
      archive_def RemoveAll_def HasPrefix_def)

section \<open>Properties of the control-plane information and the preflight\<close>

lemma contains_iff: "contains ss s = (s \<in> set ss)"
  by (induction ss) auto

lemma flagErrors_eq:
  "flagErrors observed ffs errs = errs @ map flagError (filter (\<lambda>ff. ff \<notin> set observed) ffs)"
  by (induction ffs arbitrary: errs) (auto simp: contains_iff)

lemma scanDeployments_absent:
  "\<forall>d \<in> set items. d_Name d \<noteq> ''crossplane'' \<Longrightarrow> scanDeployments items = zeroInfo"
  by (induction items) auto

text \<open>
  C5. When the control-plane information, the archive and the manifest can be read,
  \<open>PreflightChecks\<close> returns one error if the observed version differs from the
  manifest's, followed by one error for each feature flag listed in the manifest that
  the target does not have, and nothing else; flags that only the target has give no
  error. The result is empty exactly when the versions agree and every flag of the
  manifest is on the target.
\<close>

theorem PreflightChecks_errors:
  assumes "CollectInfo (listDeployments env) = Inr observed"
    and "(case imfs of None \<Rightarrow> unarchive env | Some fs \<Rightarrow> (None, fs)) = (None, fs)"
    and "readExportYaml env = Inr b"
    and "yamlUnmarshal env b = Inr em"
  shows "fst (PreflightChecks env imfs) =
           (if xp_Version observed \<noteq> xp_Version (em_Crossplane em)
            then [versionError (xp_Version observed) (xp_Version (em_Crossplane em))] else []) @
           map flagError (filter (\<lambda>ff. ff \<notin> set (xp_FeatureFlags observed))
                                 (xp_FeatureFlags (em_Crossplane em))) \<and>
         (fst (PreflightChecks env imfs) = [] \<longleftrightarrow>
            xp_Version observed = xp_Version (em_Crossplane em) \<and>
            set (xp_FeatureFlags (em_Crossplane em)) \<subseteq> set (xp_FeatureFlags observed))"
  using assms
  by (auto simp: PreflightChecks_def compareInfo_def flagErrors_eq filter_empty_conv)

text \<open>
  A target at version 1.14.0 with two flags, against a manifest at 1.13.2 with one of
  them and one more: a version error and one flag error.
\<close>

theorem PreflightChecks_errors_witness:
  "fst (PreflightChecks (sampleTarget [otherDeployment, crossplaneDeployment]) None) =
     [versionError ''1.14.0'' ''1.13.2'', flagError ''--enable-environment-configs'']"
proof -
  let ?env = "sampleTarget [otherDeployment, crossplaneDeployment]"
  have c: "CollectInfo (listDeployments ?env) =
      Inr \<lparr>xp_Version = ''1.14.0'', xp_Distribution = ''crossplane'',
           xp_Namespace = ''crossplane-system'',
           xp_FeatureFlags = [''--enable-usages'', ''--enable-realtime-compositions'']\<rparr>"
    by (simp add: sampleTarget_def CollectInfo_def otherDeployment_def crossplaneDeployment_def
        deploymentInfo_def index_def HasPrefix_def)
  have u: "(case None of None \<Rightarrow> unarchive ?env | Some fs \<Rightarrow> (None, fs)) = (None, sampleRoot)"
    by (simp add: sampleTarget_def)
  have r: "readExportYaml ?env = Inr ''version: v1alpha1''"
    by (simp add: sampleTarget_def)
  have y: "yamlUnmarshal ?env ''version: v1alpha1'' = Inr sampleMeta"
    by (simp add: sampleTarget_def)
  show ?thesis
    using PreflightChecks_errors[OF c u r y] by (simp add: sampleMeta_def)
qed

text \<open>
  C10. When the deployments can be listed and none is named \<^verbatim>\<open>crossplane\<close>, \<open>CollectInfo\<close>
  returns no error and an information whose version, distribution and namespace are
  empty strings and whose feature flags are the empty list. The preflight then compares
  the manifest with these empty values: a version error unless the manifest's version is
  empty, and a flag error for every flag of the manifest.
\<close>

theorem CollectInfo_absent:
  assumes "listDeployments env = Inr items"
    and "\<forall>d \<in> set items. d_Name d \<noteq> ''crossplane''"
  shows "CollectInfo (listDeployments env) =
           Inr \<lparr>xp_Version = [], xp_Distribution = [], xp_Namespace = [], xp_FeatureFlags = []\<rparr> \<and>
         ((case imfs of None \<Rightarrow> unarchive env | Some fs \<Rightarrow> (None, fs)) = (None, fs) \<and>
          readExportYaml env = Inr b \<and> yamlUnmarshal env b = Inr em \<longrightarrow>
          fst (PreflightChecks env imfs) =
            (if xp_Version (em_Crossplane em) \<noteq> []
             then [versionError [] (xp_Version (em_Crossplane em))] else []) @
            map flagError (xp_FeatureFlags (em_Crossplane em)))"
  using assms scanDeployments_absent[OF assms(2)]
  by (auto simp: CollectInfo_def zeroInfo_def PreflightChecks_def compareInfo_def flagErrors_eq)

theorem CollectInfo_absent_witness:
  "CollectInfo (listDeployments (sampleTarget [otherDeployment])) =
     Inr \<lparr>xp_Version = [], xp_Distribution = [], xp_Namespace = [], xp_FeatureFlags = []\<rparr> \<and>
   fst (PreflightChecks (sampleTarget [otherDeployment]) None) =
     [versionError [] ''1.13.2'', flagError ''--enable-usages'',
      flagError ''--enable-environment-configs'']"
proof -
  let ?env = "sampleTarget [otherDeployment]"
  have l: "listDeployments ?env = Inr [otherDeployment]"
    by (simp add: sampleTarget_def)
  have n: "\<forall>d \<in> set [otherDeployment]. d_Name d \<noteq> ''crossplane''"
    by (simp add: otherDeployment_def)
  have m: "(case None of None \<Rightarrow> unarchive ?env | Some fs \<Rightarrow> (None, fs)) = (None, sampleRoot) \<and>
      readExportYaml ?env = Inr ''version: v1alpha1'' \<and>
      yamlUnmarshal ?env ''version: v1alpha1'' = Inr sampleMeta"
    by (simp add: sampleTarget_def)
  show ?thesis
    using CollectInfo_absent[OF l n, of None sampleRoot "''version: v1alpha1''" sampleMeta] m
    by (simp add: sampleMeta_def)
qed

section \<open>Properties of the importer\<close>

text \<open>
  C9. A poll whose listing returns no instance succeeds at once. When the REST mapping
  of the group kind succeeds and the first listing returns no instance, the wait
  returns no error, and it is the first poll that succeeded: nothing is waited for.
\<close>

theorem waitForConditions_no_instances:
  assumes "mapping gk = Inr resource"
    and "polls resource = Listed [] # later"
  shows "countUnmet conditions [] 0 = Some 0 \<and>
         pollOnce conditions (Listed []) \<and>
         pollUntil conditions (polls resource) 0 = Some 1 \<and>
         waitForConditions mapping polls gk conditions = None"
  using assms by (simp add: waitForConditions_def pollOnce_def)

theorem waitForConditions_no_instances_witness:
  "pollUntil [''Installed'', ''Healthy''] [Listed []] 0 = Some 1 \<and>
   waitForConditions (restMapping (sampleTarget []) []) (listPolls (sampleTarget []) [])
     (pkgKind ''Provider'') [''Installed'', ''Healthy''] = None"
proof -
  have m: "restMapping (sampleTarget []) [] (pkgKind ''Provider'') =
      Inr \<lparr>gvr_Group = ''pkg.crossplane.io'', gvr_Version = ''v1'', gvr_Resource = ''Provider''\<rparr>"
    by (simp add: sampleTarget_def pkgKind_def)
  have p: "listPolls (sampleTarget []) []
      \<lparr>gvr_Group = ''pkg.crossplane.io'', gvr_Version = ''v1'', gvr_Resource = ''Provider''\<rparr> =
      Listed [] # []"
    by (simp add: sampleTarget_def)
  show ?thesis
    using waitForConditions_no_instances[where mapping = "restMapping (sampleTarget []) []"
        and polls = "listPolls (sampleTarget []) []" and gk = "pkgKind ''Provider''"
        and later = "[]" and conditions = "[''Installed'', ''Healthy'']", OF m p] p
    by simp
qed

































end
